theory Spec2Isabelle
  imports Main "HOL-Library.Sublist" "HOL-Library.Word" "HOL-Library.Log_Nat"
begin

section \<open>JavaScript values and the built-in Set\<close>

text \<open>
  A JavaScript string is a sequence of 16-bit code units. The strings that the script
  reads from the document and compares with (class names, style texts, colour tokens)
  are kept as \<open>string\<close>, a list of 8-bit characters, each standing for the code unit of
  the same number; \<open>units\<close> gives the code units of such a text. The stored selection
  and the values that \<open>JSON.parse\<close> makes of it hold code units of any value.
\<close>

type_synonym codeunit = "16 word"

definition ch :: "char \<Rightarrow> codeunit" where
  "ch c = of_char c"

definition units :: "string \<Rightarrow> codeunit list" where
  "units s = map ch s"

text \<open>
  The values that can come out of \<open>JSON.parse\<close>. A number is kept as the mathematical
  value of its literal, \<open>m * 10 ^ e\<close>; the Number it denotes is that value rounded to
  a double (\<open>to_number\<close> below). An object is kept without its members: the script never
  reads a property of a parsed object, and no two objects are the same value.
\<close>

datatype jsvalue =
    JNull
  | JBool bool
  | JNumber int int
  | JStr "codeunit list"
  | JArray "jsvalue list"
  | JObject

text \<open>The string value of a text of the script, such as \<open>"gray"\<close>.\<close>

definition JString :: "string \<Rightarrow> jsvalue" where
  "JString s = JStr (units s)"

datatype error = SyntaxError | TypeError

text \<open>
  The Number value of a decimal literal: the double nearest to \<open>m * 10 ^ e\<close>, ties
  going to the even significand (IEEE 754 binary64, as ECMAScript asks for a literal of
  up to 20 significant digits and as the engines do for every literal). A finite
  non-zero double is \<open>Finite negative s k\<close> with the value \<open>s * 2 ^ k\<close>, where either
  \<open>2 ^ 52 \<le> s < 2 ^ 53\<close>, or \<open>s < 2 ^ 52\<close> and \<open>k = - 1074\<close> (a subnormal). \<open>Zero\<close>
  stands for both zeros, which the Set does not tell apart.
\<close>

datatype number = Zero | Infinite bool | Finite bool int int

definition round_half_even :: "int \<Rightarrow> int \<Rightarrow> int" where
  "round_half_even n d =
     (let q = n div d; r = n mod d in
      if 2 * r < d then q else if d < 2 * r then q + 1 else if even q then q else q + 1)"

text \<open>
  With \<open>n / d\<close> the absolute value, \<open>E\<close> is the integer with \<open>2 ^ E \<le> n / d < 2 ^ (E + 1)\<close>
  (\<open>bitlen\<close> counts binary digits), \<open>k\<close> the exponent of the last place, and \<open>sig\<close> the
  value in units of \<open>2 ^ k\<close>, rounded. Rounding up to \<open>2 ^ 53\<close> moves to the next
  exponent, and a result of \<open>2 ^ 1024\<close> or more is infinite.
\<close>

definition to_number :: "int \<Rightarrow> int \<Rightarrow> number" where
  "to_number m e =
     (if m = 0 then Zero
      else
        (let n = \<bar>m\<bar> * 10 ^ nat e;
             d = 10 ^ nat (- e);
             b = bitlen n - bitlen d;
             E = (if d * 2 ^ nat b \<le> n * 2 ^ nat (- b) then b else b - 1);
             k = max (E - 52) (- 1074);
             sig = round_half_even (n * 2 ^ nat (- k)) (d * 2 ^ nat k);
             (sig', k') = (if sig = 2 ^ 53 then (2 ^ 52, k + 1) else (sig, k))
         in if sig' = 0 then Zero
            else if 972 \<le> k' then Infinite (m < 0)
            else Finite (m < 0) sig' k'))"

text \<open>
  \<open>SameValueZero\<close>, the equality of \<open>Set.prototype.has\<close> and \<open>add\<close>: primitives are
  compared by value; arrays and objects are compared by identity, and every array or
  object that \<open>JSON.parse\<close> builds is a fresh one, so two of them are never the same.
\<close>

fun sameValueZero :: "jsvalue \<Rightarrow> jsvalue \<Rightarrow> bool" where
  "sameValueZero JNull JNull = True"
| "sameValueZero (JBool a) (JBool b) = (a = b)"
| "sameValueZero (JNumber m e) (JNumber m' e') = (to_number m e = to_number m' e')"
| "sameValueZero (JStr s) (JStr t) = (s = t)"
| "sameValueZero _ _ = False"

text \<open>A \<open>Set\<close> is the list of its members in insertion order, without repetition.\<close>

type_synonym js_set = "jsvalue list"

definition Set_has :: "js_set \<Rightarrow> jsvalue \<Rightarrow> bool" where
  "Set_has S v = list_ex (sameValueZero v) S"

definition Set_add :: "js_set \<Rightarrow> jsvalue \<Rightarrow> js_set" where
  "Set_add S v = (if Set_has S v then S else S @ [v])"

definition Set_size :: "js_set \<Rightarrow> nat" where
  "Set_size S = length S"

definition Set_of_list :: "jsvalue list \<Rightarrow> js_set" where
  "Set_of_list vs = foldl Set_add [] vs"

text \<open>
  The iterator of a string yields its code points: a high surrogate followed by a low
  surrogate is one element of two code units, every other code unit is an element of
  its own.
\<close>

definition high_surrogate :: "codeunit \<Rightarrow> bool" where
  "high_surrogate c = (0xD800 \<le> c \<and> c \<le> 0xDBFF)"

definition low_surrogate :: "codeunit \<Rightarrow> bool" where
  "low_surrogate c = (0xDC00 \<le> c \<and> c \<le> 0xDFFF)"

fun code_points :: "codeunit list \<Rightarrow> codeunit list list" where
  "code_points [] = []"
| "code_points [c] = [[c]]"
| "code_points (c # d # cs) =
     (if high_surrogate c \<and> low_surrogate d then [c, d] # code_points cs
      else [c] # code_points (d # cs))"

text \<open>
  \<open>new Set(iterable)\<close>: \<open>null\<close> gives the empty set, an array gives its elements, a
  string gives its code points, and a number, a boolean or a plain object is not
  iterable (\<open>TypeError\<close>).
\<close>

fun new_Set :: "jsvalue \<Rightarrow> error + js_set" where
  "new_Set JNull = Inr []"
| "new_Set (JArray vs) = Inr (Set_of_list vs)"
| "new_Set (JStr s) = Inr (Set_of_list (map JStr (code_points s)))"
| "new_Set (JBool b) = Inl TypeError"
| "new_Set (JNumber m e) = Inl TypeError"
| "new_Set JObject = Inl TypeError"


section \<open>Constants of the script\<close>

definition REFRESH_DEBOUNCE_MS :: nat where
  "REFRESH_DEBOUNCE_MS = 180"

definition KNOWN_COLORS :: "string list" where
  "KNOWN_COLORS = [''green'', ''yellow'', ''red'', ''gray'']"

section \<open>The colour pattern\<close>

text \<open>
  \<open>COLOR_RE = /--color-([a-z]+)/i\<close>. Without the \<open>u\<close> flag the \<open>i\<close> flag compares
  characters after \<open>toUpperCase\<close>, and a character above 127 never folds to an ASCII
  one, so only ASCII letters are folded and \<open>[a-z]\<close> matches exactly the ASCII letters
  of both cases.
\<close>

definition ascii_letter :: "char \<Rightarrow> bool" where
  "ascii_letter c =
     (let n = (of_char c :: nat) in (65 \<le> n \<and> n \<le> 90) \<or> (97 \<le> n \<and> n \<le> 122))"

definition canonicalize :: "char \<Rightarrow> char" where
  "canonicalize c =
     (let n = (of_char c :: nat) in if 97 \<le> n \<and> n \<le> 122 then char_of (n - 32) else c)"

text \<open>
  A match of the pattern that starts at the head of the text: the fixed prefix, then the
  longest run of letters, which must not be empty. The result is capture group 1.
\<close>

definition match_here :: "string \<Rightarrow> string option" where
  "match_here s =
     (if map canonicalize (take 8 s) = ''--COLOR-''
      then (case takeWhile ascii_letter (drop 8 s) of
              [] \<Rightarrow> None
            | g # gs \<Rightarrow> Some (g # gs))
      else None)"

text \<open>\<open>COLOR_RE.exec(text)\<close>: the leftmost match, or \<open>null\<close>.\<close>

fun COLOR_RE_exec :: "string \<Rightarrow> string option" where
  "COLOR_RE_exec [] = None"
| "COLOR_RE_exec (c # cs) =
     (case match_here (c # cs) of
        Some g \<Rightarrow> Some g
      | None \<Rightarrow> COLOR_RE_exec cs)"

text \<open>\<open>colorInCard = match ? match[1] : null\<close>\<close>

definition colorInCard :: "string \<Rightarrow> string option" where
  "colorInCard cssText =
     (case COLOR_RE_exec cssText of Some g \<Rightarrow> Some g | None \<Rightarrow> None)"

section \<open>The visibility expression of refresh\<close>

definition noFilters :: "js_set \<Rightarrow> bool" where
  "noFilters S = (Set_size S = 0)"

text \<open>Truthiness of \<open>colorInCard\<close>: \<open>null\<close> and the empty string are falsy.\<close>

definition truthy :: "string option \<Rightarrow> bool" where
  "truthy c = (case c of None \<Rightarrow> False | Some s \<Rightarrow> s \<noteq> [])"

text \<open>
  \<open>show = noFilters || (colorInCard && SELECTED_COLORS.has(colorInCard)) ||
  (!colorInCard && SELECTED_COLORS.has("gray"))\<close>, read for its truthiness as
  \<open>show ? "" : "none"\<close> does.
\<close>

definition show_card :: "js_set \<Rightarrow> string option \<Rightarrow> bool" where
  "show_card S c =
     (noFilters S
      \<or> (case c of None \<Rightarrow> False | Some t \<Rightarrow> truthy c \<and> Set_has S (JString t))
      \<or> (\<not> truthy c \<and> Set_has S (JString ''gray'')))"

section \<open>The built-in JSON.parse\<close>

text \<open>
  \<open>JSON.parse\<close> belongs to the platform. It is modelled as a pushdown automaton that
  reads the text one code unit at a time (the grammar of ECMA-404): the mode says what
  may come next, and the stack holds the arrays and objects that are still open, an
  array with the elements read so far (last first), an object as \<open>FObject\<close>, with
  \<open>FKey\<close> above it while the value of a member is awaited. Any text outside the grammar
  is a \<open>SyntaxError\<close>.
\<close>

datatype frame =
    FArray "jsvalue list"
  | FObject
  | FKey
  | FResult jsvalue

datatype numstate = NMinus | NZero | NInt | NDot | NFrac | NE | NESign | NExp

text \<open>
  The modes: a value is expected (\<open>ValueOrClose\<close> just after \<open>[\<close>); a key is expected
  (\<open>KeyOrClose\<close> just after \<open>{\<close>); the colon after a key; after a value; inside a string
  (with the code units read so far, last first, and whether the string is a key), after
  a backslash, and inside a four-digit escape (with the number of hexadecimal digits read and
  their value); inside \<open>true\<close>, \<open>false\<close> or \<open>null\<close> (with the letters still to come);
  inside a number (with the sign, the digits read as an integer, the power of ten that
  the fraction digits have cost, and the sign and value of the exponent).
\<close>

datatype mode =
    Value
  | ValueOrClose
  | KeyOrClose
  | Key
  | Colon
  | After
  | Str "codeunit list" bool
  | Esc "codeunit list" bool
  | Uni "codeunit list" bool nat nat
  | Lit "codeunit list" jsvalue
  | Num numstate bool int int bool nat
  | Fail

type_synonym pstate = "mode \<times> frame list"

definition is_ws :: "codeunit \<Rightarrow> bool" where
  "is_ws c = (c = 0x20 \<or> c = 0x09 \<or> c = 0x0A \<or> c = 0x0D)"

definition digit_of :: "codeunit \<Rightarrow> nat option" where
  "digit_of c =
     (let n = unat c in if 48 \<le> n \<and> n \<le> 57 then Some (n - 48) else None)"

definition hex_of :: "codeunit \<Rightarrow> nat option" where
  "hex_of c =
     (let n = unat c in
        if 48 \<le> n \<and> n \<le> 57 then Some (n - 48)
        else if 65 \<le> n \<and> n \<le> 70 then Some (n - 55)
        else if 97 \<le> n \<and> n \<le> 102 then Some (n - 87)
        else None)"

text \<open>A value is complete: it is the result, an element of the open array, or the value of
  the open member.\<close>

fun complete :: "jsvalue \<Rightarrow> frame list \<Rightarrow> pstate" where
  "complete v [] = (After, [FResult v])"
| "complete v (FArray vs # st) = (After, FArray (v # vs) # st)"
| "complete v (FKey # FObject # st) = (After, FObject # st)"
| "complete v st = (Fail, st)"

fun after_step :: "frame list \<Rightarrow> codeunit \<Rightarrow> pstate" where
  "after_step st c =
     (if is_ws c then (After, st)
      else if c = ch CHR '','' then
        (case st of
           FArray vs # r \<Rightarrow> (Value, st)
         | FObject # r \<Rightarrow> (Key, st)
         | _ \<Rightarrow> (Fail, st))
      else if c = ch CHR '']'' then
        (case st of FArray vs # r \<Rightarrow> complete (JArray (rev vs)) r | _ \<Rightarrow> (Fail, st))
      else if c = ch CHR ''}'' then
        (case st of FObject # r \<Rightarrow> complete JObject r | _ \<Rightarrow> (Fail, st))
      else (Fail, st))"

definition number_value :: "bool \<Rightarrow> int \<Rightarrow> int \<Rightarrow> bool \<Rightarrow> nat \<Rightarrow> jsvalue" where
  "number_value neg m sh eneg ev =
     JNumber (if neg then - m else m) (sh + (if eneg then - int ev else int ev))"

definition num_final :: "numstate \<Rightarrow> bool" where
  "num_final n = (n = NZero \<or> n = NInt \<or> n = NFrac \<or> n = NExp)"

definition value_step :: "bool \<Rightarrow> frame list \<Rightarrow> codeunit \<Rightarrow> pstate" where
  "value_step may_close st c =
     (if is_ws c then (if may_close then ValueOrClose else Value, st)
      else if c = ch CHR ''['' then (ValueOrClose, FArray [] # st)
      else if c = ch CHR ''{'' then (KeyOrClose, FObject # st)
      else if c = 0x22 then (Str [] False, st)
      else if c = ch CHR ''-'' then (Num NMinus True 0 0 False 0, st)
      else if c = ch CHR ''0'' then (Num NZero False 0 0 False 0, st)
      else if c = ch CHR ''t'' then (Lit (units ''rue'') (JBool True), st)
      else if c = ch CHR ''f'' then (Lit (units ''alse'') (JBool False), st)
      else if c = ch CHR ''n'' then (Lit (units ''ull'') JNull, st)
      else if c = ch CHR '']'' \<and> may_close then
        (case st of FArray vs # r \<Rightarrow> complete (JArray (rev vs)) r | _ \<Rightarrow> (Fail, st))
      else (case digit_of c of
              Some d \<Rightarrow> (Num NInt False (int d) 0 False 0, st)
            | None \<Rightarrow> (Fail, st)))"

definition key_step :: "bool \<Rightarrow> frame list \<Rightarrow> codeunit \<Rightarrow> pstate" where
  "key_step may_close st c =
     (if is_ws c then (if may_close then KeyOrClose else Key, st)
      else if c = 0x22 then (Str [] True, st)
      else if c = ch CHR ''}'' \<and> may_close then
        (case st of FObject # r \<Rightarrow> complete JObject r | _ \<Rightarrow> (Fail, st))
      else (Fail, st))"

text \<open>Inside a string: the closing quote, a backslash, or any code unit from \<open>0x20\<close> on.\<close>

definition str_step :: "codeunit list \<Rightarrow> bool \<Rightarrow> frame list \<Rightarrow> codeunit \<Rightarrow> pstate" where
  "str_step acc k st c =
     (if c = 0x22 then
        (if k then (Colon, FKey # st) else complete (JStr (rev acc)) st)
      else if c = 0x5C then (Esc acc k, st)
      else if c < 0x20 then (Fail, st)
      else (Str (c # acc) k, st))"

definition esc_step :: "codeunit list \<Rightarrow> bool \<Rightarrow> frame list \<Rightarrow> codeunit \<Rightarrow> pstate" where
  "esc_step acc k st c =
     (if c = 0x22 \<or> c = 0x5C \<or> c = ch CHR ''/'' then (Str (c # acc) k, st)
      else if c = ch CHR ''b'' then (Str (0x08 # acc) k, st)
      else if c = ch CHR ''f'' then (Str (0x0C # acc) k, st)
      else if c = ch CHR ''n'' then (Str (0x0A # acc) k, st)
      else if c = ch CHR ''r'' then (Str (0x0D # acc) k, st)
      else if c = ch CHR ''t'' then (Str (0x09 # acc) k, st)
      else if c = ch CHR ''u'' then (Uni acc k 0 0, st)
      else (Fail, st))"

text \<open>Four hexadecimal digits give one code unit, whatever its value.\<close>

definition uni_step ::
  "codeunit list \<Rightarrow> bool \<Rightarrow> nat \<Rightarrow> nat \<Rightarrow> frame list \<Rightarrow> codeunit \<Rightarrow> pstate" where
  "uni_step acc k n v st c =
     (case hex_of c of
        None \<Rightarrow> (Fail, st)
      | Some d \<Rightarrow>
          (if n < 3 then (Uni acc k (n + 1) (v * 16 + d), st)
           else (Str (of_nat (v * 16 + d) # acc) k, st)))"

definition num_step ::
  "numstate \<Rightarrow> bool \<Rightarrow> int \<Rightarrow> int \<Rightarrow> bool \<Rightarrow> nat \<Rightarrow> frame list \<Rightarrow> codeunit \<Rightarrow> pstate" where
  "num_step n neg m sh eneg ev st c =
     (case digit_of c of
        Some d \<Rightarrow>
          (if n = NMinus then (Num (if d = 0 then NZero else NInt) neg (int d) sh eneg ev, st)
           else if n = NZero then (Fail, st)
           else if n = NInt then (Num NInt neg (m * 10 + int d) sh eneg ev, st)
           else if n = NDot \<or> n = NFrac then (Num NFrac neg (m * 10 + int d) (sh - 1) eneg ev, st)
           else (Num NExp neg m sh eneg (ev * 10 + d), st))
      | None \<Rightarrow>
          (if c = ch CHR ''.'' \<and> (n = NZero \<or> n = NInt) then (Num NDot neg m sh eneg ev, st)
           else if (c = ch CHR ''e'' \<or> c = ch CHR ''E'') \<and> (n = NZero \<or> n = NInt \<or> n = NFrac)
             then (Num NE neg m sh eneg ev, st)
           else if (c = ch CHR ''+'' \<or> c = ch CHR ''-'') \<and> n = NE
             then (Num NESign neg m sh (c = ch CHR ''-'') ev, st)
           else if num_final n then
             (case complete (number_value neg m sh eneg ev) st of
                (After, st') \<Rightarrow> after_step st' c
              | other \<Rightarrow> (Fail, st))
           else (Fail, st)))"

fun step :: "pstate \<Rightarrow> codeunit \<Rightarrow> pstate" where
  "step (Value, st) c = value_step False st c"
| "step (ValueOrClose, st) c = value_step True st c"
| "step (KeyOrClose, st) c = key_step True st c"
| "step (Key, st) c = key_step False st c"
| "step (Colon, st) c =
     (if is_ws c then (Colon, st) else if c = ch CHR '':'' then (Value, st) else (Fail, st))"
| "step (After, st) c = after_step st c"
| "step (Str acc k, st) c = str_step acc k st c"
| "step (Esc acc k, st) c = esc_step acc k st c"
| "step (Uni acc k n v, st) c = uni_step acc k n v st c"
| "step (Lit [] v, st) c = (Fail, st)"
| "step (Lit (r # rs) v, st) c =
     (if c \<noteq> r then (Fail, st) else if rs = [] then complete v st else (Lit rs v, st))"
| "step (Num n neg m sh eneg ev, st) c = num_step n neg m sh eneg ev st c"
| "step (Fail, st) c = (Fail, st)"

fun finish :: "pstate \<Rightarrow> error + jsvalue" where
  "finish (After, [FResult v]) = Inr v"
| "finish (Num n neg m sh eneg ev, []) =
     (if num_final n then Inr (number_value neg m sh eneg ev) else Inl SyntaxError)"
| "finish other = Inl SyntaxError"

definition JSON_parse :: "codeunit list \<Rightarrow> error + jsvalue" where
  "JSON_parse text = finish (foldl step (Value, []) text)"

section \<open>Loading the persisted selection\<close>

text \<open>
  \<open>const SELECTED_COLORS = new Set(JSON.parse(localStorage.getItem(STORAGE_KEY) || "[]"))\<close>.
  \<open>getItem\<close> answers \<open>null\<close> (here \<open>None\<close>) when the key is missing. \<open>||\<close> takes
  its right operand when the left one is \<open>null\<close> or the empty string. There is no
  \<open>try\<close> around the statement: an exception of \<open>JSON.parse\<close> or of \<open>new Set\<close> leaves
  the script (\<open>Inl\<close>). The parser is a parameter; the script runs with \<open>JSON_parse\<close>.
\<close>

definition load ::
  "(codeunit list \<Rightarrow> error + jsvalue) \<Rightarrow> codeunit list option \<Rightarrow> error + js_set" where
  "load parse item =
     (let text = (case item of
                    None \<Rightarrow> units ''[]''
                  | Some s \<Rightarrow> if s = [] then units ''[]'' else s)
      in case parse text of Inl e \<Rightarrow> Inl e | Inr v \<Rightarrow> new_Set v)"

definition SELECTED_COLORS_init :: "codeunit list option \<Rightarrow> error + js_set" where
  "SELECTED_COLORS_init item = load JSON_parse item"

section \<open>Cards and the refresh pass\<close>

text \<open>
  A card is an element of the host page that \<open>refresh\<close> reads and annotates. The model
  keeps what the loop body touches:
  \<^item> \<open>classList\<close>: the class tokens of the card;
  \<^item> \<open>episode\<close>: the \<open>textContent\<close> of \<open>card.getElementsByClassName("episode")[0]\<close>,
    or \<open>None\<close> when the card has no such descendant;
  \<^item> \<open>highlighter\<close>: \<open>None\<close> when \<open>card.getElementsByClassName("highlighter")[0]\<close> is
    undefined; otherwise its inline style: \<open>Some (Some text)\<close> with \<open>style.cssText\<close>, or
    \<open>Some None\<close> for an element that has no \<open>style\<close> object (an element of a foreign
    namespace is a plain \<open>Element\<close>), where reading \<open>highlighter.style.cssText\<close> raises
    \<open>TypeError\<close>;
  \<^item> \<open>display\<close>: \<open>card.style.display\<close>, or \<open>None\<close> when the card itself has no \<open>style\<close>
    object, where the assignment to \<open>card.style.display\<close> raises \<open>TypeError\<close>.
\<close>

record card =
  classList :: "string list"
  episode :: "string option"
  highlighter :: "string option option"
  display :: "string option"

definition AIRED_CLASS :: string where
  "AIRED_CLASS = ''anichart-filter-card-aired''"

text \<open>\<open>String.prototype.includes\<close>: the argument occurs as a contiguous part.\<close>

fun includes_str :: "string \<Rightarrow> string \<Rightarrow> bool" where
  "includes_str [] t = (t = [])"
| "includes_str (x # xs) t = (prefix t (x # xs) \<or> includes_str xs t)"

definition classList_add :: "string list \<Rightarrow> string \<Rightarrow> string list" where
  "classList_add cl t = (if t \<in> set cl then cl else cl @ [t])"

definition classList_remove :: "string list \<Rightarrow> string \<Rightarrow> string list" where
  "classList_remove cl t = filter (\<lambda>x. x \<noteq> t) cl"

text \<open>The first statement of the loop body: the aired marker is set or cleared.\<close>

definition mark_aired :: "card \<Rightarrow> card" where
  "mark_aired c =
     (if (case episode c of None \<Rightarrow> False | Some text \<Rightarrow> includes_str text ''aired'')
      then c\<lparr>classList := classList_add (classList c) AIRED_CLASS\<rparr>
      else c\<lparr>classList := classList_remove (classList c) AIRED_CLASS\<rparr>)"

text \<open>
  The loop body for one card. It answers the card as the body leaves it and the
  exception that the body raised, if any: the marker has already been written when a
  later statement of the body raises. \<open>noFilters\<close> is computed once before the loop from
  the same set, which the loop does not change.
\<close>

definition refresh_card :: "js_set \<Rightarrow> card \<Rightarrow> card \<times> error option" where
  "refresh_card S c =
     (let c1 = mark_aired c in
      case highlighter c1 of
        None \<Rightarrow> (c1, None)
      | Some None \<Rightarrow> (c1, Some TypeError)
      | Some (Some cssText) \<Rightarrow>
          (case display c1 of
             None \<Rightarrow> (c1, Some TypeError)
           | Some d \<Rightarrow>
               (c1\<lparr>display :=
                    Some (if show_card S (colorInCard cssText) then [] else ''none'')\<rparr>,
                None)))"

text \<open>The \<open>for\<close> loop: an exception ends it, and the cards not yet visited stay as they are.\<close>

fun refresh_loop :: "js_set \<Rightarrow> card list \<Rightarrow> card list \<times> error option" where
  "refresh_loop S [] = ([], None)"
| "refresh_loop S (c # cs) =
     (case refresh_card S c of
        (c', Some e) \<Rightarrow> (c' # cs, Some e)
      | (c', None) \<Rightarrow>
          (case refresh_loop S cs of (cs', r) \<Rightarrow> (c' # cs', r)))"

text \<open>
  The part of the page that \<open>refresh\<close> touches: the cards that
  \<open>document.querySelectorAll('.media-card, .airing-card')\<close> finds, the number of
  \<open>resize\<close> events dispatched to the window, and what \<open>console.error\<close> has logged.
\<close>

record page =
  cards :: "card list"
  resize_events :: nat
  console :: "error list"

text \<open>The body of the \<open>try\<close> block, with the exception that leaves it, if any.\<close>

definition refresh_try :: "js_set \<Rightarrow> page \<Rightarrow> page \<times> error option" where
  "refresh_try S p =
     (let p1 = p\<lparr>resize_events := resize_events p + 1\<rparr> in
      if cards p1 = [] then (p1, None)
      else (case refresh_loop S (cards p1) of (cs, r) \<Rightarrow> (p1\<lparr>cards := cs\<rparr>, r)))"

text \<open>
  \<open>refresh\<close>: the \<open>catch\<close> clause logs the exception. The second component is the
  exception that reaches the caller.
\<close>

definition refresh :: "js_set \<Rightarrow> page \<Rightarrow> page \<times> error option" where
  "refresh S p =
     (case refresh_try S p of
        (p', None) \<Rightarrow> (p', None)
      | (p', Some err) \<Rightarrow> (p'\<lparr>console := console p' @ [err]\<rparr>, None))"


section \<open>The mutation watcher\<close>

text \<open>
  The nodes that a mutation record names. An element carries its class tokens and its
  child nodes; text and comment nodes have neither (\<open>nodeType\<close> 3 and 8).
\<close>

datatype node = Element "string list" "node list" | Text | Comment

fun nodeType :: "node \<Rightarrow> nat" where
  "nodeType (Element cl kids) = 1"
| "nodeType Text = 3"
| "nodeType Comment = 8"

fun has_class :: "string \<Rightarrow> node \<Rightarrow> bool" where
  "has_class t (Element cl kids) = (t \<in> set cl)"
| "has_class t Text = False"
| "has_class t Comment = False"

fun descendants :: "node \<Rightarrow> node list" where
  "descendants (Element cl kids) = concat (map (\<lambda>k. k # descendants k) kids)"
| "descendants Text = []"
| "descendants Comment = []"

text \<open>
  A node as the callback finds it: the node with its subtree, and the class lists of the
  elements above it at that moment, nearest first. A node that has been removed and not
  inserted again is detached: it has no element above it.
\<close>

record noderef =
  node :: node
  ancestors :: "string list list"

text \<open>
  The selector tests of the callback, each read for its truthiness.
  \<open>querySelector\<close> looks at the descendants only; \<open>matches(".media-card *, .airing-card *")\<close>
  holds when some ancestor is a card; \<open>closest\<close> looks at the element itself and at its
  ancestors, and a node that is not an element has no \<open>closest\<close> method, so that
  \<open>target.closest?.(...)\<close> is undefined.
\<close>

definition is_card_classes :: "string list \<Rightarrow> bool" where
  "is_card_classes cl = (''media-card'' \<in> set cl \<or> ''airing-card'' \<in> set cl)"

definition querySelector_filters :: "node \<Rightarrow> bool" where
  "querySelector_filters n = list_ex (has_class ''filters'') (descendants n)"

definition querySelector_card :: "node \<Rightarrow> bool" where
  "querySelector_card n =
     list_ex (\<lambda>d. has_class ''media-card'' d \<or> has_class ''airing-card'' d) (descendants n)"

definition matches_inside_card :: "noderef \<Rightarrow> bool" where
  "matches_inside_card r = list_ex is_card_classes (ancestors r)"

definition closest_card :: "noderef \<Rightarrow> bool" where
  "closest_card r =
     (case node r of
        Element cl kids \<Rightarrow> is_card_classes cl \<or> list_ex is_card_classes (ancestors r)
      | Text \<Rightarrow> False
      | Comment \<Rightarrow> False)"

text \<open>
  A mutation record. A \<open>childList\<close> record has its \<open>target\<close>, the node whose children
  changed, and the nodes that were added to it and removed from it; an \<open>attributes\<close>
  record has the element whose attribute changed as its \<open>target\<close>. The observer asks
  for \<open>childList\<close> and \<open>attributes\<close> (filtered to \<open>style\<close>) only; a record of type
  \<open>characterData\<close> falls through both branches.
\<close>

datatype mutation =
    ChildList noderef "noderef list" "noderef list"
  | Attributes noderef
  | CharacterData noderef

text \<open>The two closure variables of \<open>setupObservers\<close>.\<close>

record flags =
  pendingCardsChange :: bool
  pendingFiltersChange :: bool

definition both :: "flags \<Rightarrow> bool" where
  "both f = (pendingCardsChange f \<and> pendingFiltersChange f)"

text \<open>The two tests that the inner loop makes on an element node.\<close>

definition touches_filters :: "noderef \<Rightarrow> bool" where
  "touches_filters r = (has_class ''filters'' (node r) \<or> querySelector_filters (node r))"

definition touches_cards :: "noderef \<Rightarrow> bool" where
  "touches_cards r =
     (has_class ''media-card'' (node r) \<or> has_class ''airing-card'' (node r) \<or>
      matches_inside_card r \<or> querySelector_card (node r))"

text \<open>\<open>for (const node of allNodes)\<close>, with its \<open>continue\<close> and its \<open>break\<close>.\<close>

fun scan_nodes :: "flags \<Rightarrow> noderef list \<Rightarrow> flags" where
  "scan_nodes f [] = f"
| "scan_nodes f (r # rs) =
     (if nodeType (node r) \<noteq> 1 then scan_nodes f rs
      else
        (let f1 = (if touches_filters r then f\<lparr>pendingFiltersChange := True\<rparr> else f);
             f2 = (if touches_cards r then f1\<lparr>pendingCardsChange := True\<rparr> else f1)
         in if both f2 then f2 else scan_nodes f2 rs))"

text \<open>
  The body of the outer loop for one record. The \<open>childList\<close> branch looks at the added
  and removed nodes and never at \<open>m.target\<close>; the \<open>attributes\<close> branch looks at
  \<open>m.target\<close>.
\<close>

fun classify :: "flags \<Rightarrow> mutation \<Rightarrow> flags" where
  "classify f (ChildList target added removed) = scan_nodes f (added @ removed)"
| "classify f (Attributes target) =
     (if closest_card target then f\<lparr>pendingCardsChange := True\<rparr> else f)"
| "classify f (CharacterData target) = f"

text \<open>\<open>for (const m of mutations)\<close>, which breaks before a record once both flags are set.\<close>

fun scan_records :: "flags \<Rightarrow> mutation list \<Rightarrow> flags" where
  "scan_records f [] = f"
| "scan_records f (m # ms) = (if both f then f else scan_records (classify f m) ms)"

text \<open>
  The observer callback: the scan, then the two \<open>if\<close> statements. It answers the flags as
  it leaves them and the calls it makes, in order.
\<close>

datatype action = InitializeHtml | DebounceRefresh

definition observer_callback :: "flags \<Rightarrow> mutation list \<Rightarrow> flags \<times> action list" where
  "observer_callback f0 mutations =
     (let f = scan_records f0 mutations;
          (f1, a1) = (if pendingFiltersChange f
                      then (f\<lparr>pendingFiltersChange := False\<rparr>, [InitializeHtml])
                      else (f, []));
          (f2, a2) = (if pendingCardsChange f1
                      then (f1\<lparr>pendingCardsChange := False\<rparr>, [DebounceRefresh])
                      else (f1, []))
      in (f2, a1 @ a2))"

text \<open>
  The watcher as the specification words it. A node \<^emph>\<open>is or contains the controls
  container\<close> when it or one of its descendants has the class \<open>filters\<close>. A node \<^emph>\<open>is a
  card\<close> when it has the class \<open>media-card\<close> or \<open>airing-card\<close>, and \<^emph>\<open>contains a card\<close>
  when one of its descendants is a card. An element is \<^emph>\<open>a card or inside a card\<close> when
  it or one of the elements above it is a card. A node that a record adds to its target
  or removes from it is \<^emph>\<open>inside a card\<close> when the target is a card or inside a card:
  that is where the node is added or where it was before its removal.
\<close>

definition is_element :: "noderef \<Rightarrow> bool" where
  "is_element r = (nodeType (node r) = 1)"

definition is_card :: "node \<Rightarrow> bool" where
  "is_card n = (has_class ''media-card'' n \<or> has_class ''airing-card'' n)"

definition card_or_inside_card :: "noderef \<Rightarrow> bool" where
  "card_or_inside_card r =
     (is_element r \<and>
      (is_card (node r) \<or>
       (\<exists>cl \<in> set (ancestors r). ''media-card'' \<in> set cl \<or> ''airing-card'' \<in> set cl)))"

definition spec_controls_node :: "noderef \<Rightarrow> bool" where
  "spec_controls_node r =
     (is_element r \<and> (\<exists>n \<in> set (node r # descendants (node r)). has_class ''filters'' n))"

definition spec_cards_node :: "noderef \<Rightarrow> noderef \<Rightarrow> bool" where
  "spec_cards_node target r =
     (is_element r \<and>
      (is_card (node r) \<or> card_or_inside_card target \<or>
       (\<exists>n \<in> set (descendants (node r)). is_card n)))"

definition spec_controls_changed :: "mutation list \<Rightarrow> bool" where
  "spec_controls_changed ms =
     (\<exists>target added removed. ChildList target added removed \<in> set ms \<and>
        (\<exists>r \<in> set added \<union> set removed. spec_controls_node r))"

definition spec_cards_changed :: "mutation list \<Rightarrow> bool" where
  "spec_cards_changed ms =
     ((\<exists>target added removed. ChildList target added removed \<in> set ms \<and>
         (\<exists>r \<in> set added \<union> set removed. spec_cards_node target r)) \<or>
      (\<exists>target. Attributes target \<in> set ms \<and> card_or_inside_card target))"

section \<open>The debounced refresher\<close>

text \<open>
  Timers belong to the platform. Time is counted in whole units (milliseconds). The
  state holds the clock, the next timer handle (handles are positive), the timers that
  are scheduled and not yet fired, each with its handle and the time it is due, the
  script's variable \<open>refreshTimer\<close>, and the times at which the timer callback has run
  \<open>refresh()\<close>.
\<close>

record timing =
  now :: nat
  nextHandle :: nat
  pending :: "(nat \<times> nat) list"
  refreshTimer :: "nat option"
  runs :: "nat list"

definition timing_init :: timing where
  "timing_init = \<lparr>now = 0, nextHandle = 1, pending = [], refreshTimer = None, runs = []\<rparr>"

definition setTimeout :: "nat \<Rightarrow> timing \<Rightarrow> nat \<times> timing" where
  "setTimeout delay t =
     (nextHandle t,
      t\<lparr>pending := pending t @ [(nextHandle t, now t + delay)],
        nextHandle := nextHandle t + 1\<rparr>)"

definition clearTimeout :: "nat \<Rightarrow> timing \<Rightarrow> timing" where
  "clearTimeout handle t = t\<lparr>pending := filter (\<lambda>(h, due). h \<noteq> handle) (pending t)\<rparr>"

text \<open>
  \<open>debounceRefresh\<close>: \<open>if (refreshTimer) clearTimeout(refreshTimer)\<close>, where \<open>null\<close> and
  the handle 0 are falsy, then \<open>refreshTimer = setTimeout(..., REFRESH_DEBOUNCE_MS)\<close>.
\<close>

definition debounceRefresh :: "timing \<Rightarrow> timing" where
  "debounceRefresh t =
     (let t1 = (case refreshTimer t of
                  None \<Rightarrow> t
                | Some h \<Rightarrow> if h \<noteq> 0 then clearTimeout h t else t);
          (h, t2) = setTimeout REFRESH_DEBOUNCE_MS t1
      in t2\<lparr>refreshTimer := Some h\<rparr>)"

text \<open>
  The timer callback \<open>() => { refresh(); refreshTimer = null; }\<close>. \<open>refresh\<close> never throws,
  so the assignment always follows it; here the call is recorded with its time.
\<close>

definition timer_callback :: "timing \<Rightarrow> timing" where
  "timer_callback t = t\<lparr>runs := runs t @ [now t], refreshTimer := None\<rparr>"

text \<open>One unit of time passes, and every timer that is due fires.\<close>

definition tick :: "timing \<Rightarrow> timing" where
  "tick t =
     (let t1 = t\<lparr>now := now t + 1\<rparr>;
          due = filter (\<lambda>(h, d). d \<le> now t1) (pending t1);
          t2 = t1\<lparr>pending := filter (\<lambda>(h, d). \<not> d \<le> now t1) (pending t1)\<rparr>
      in foldl (\<lambda>s x. timer_callback s) t2 due)"

datatype event = Request | Tick

fun step_event :: "timing \<Rightarrow> event \<Rightarrow> timing" where
  "step_event t Request = debounceRefresh t"
| "step_event t Tick = tick t"

definition run :: "timing \<Rightarrow> event list \<Rightarrow> timing" where
  "run t es = foldl step_event t es"

text \<open>
  \<open>N\<close> requests, the \<open>k\<close>-th gap being the time between request \<open>k\<close> and request
  \<open>k + 1\<close>: a request, and for each gap that many ticks and another request.
\<close>

definition burst :: "nat list \<Rightarrow> event list" where
  "burst gaps = Request # concat (map (\<lambda>d. replicate d Tick @ [Request]) gaps)"

text \<open>
  The states the script can be in: \<open>refreshTimer\<close> is \<open>null\<close> and nothing is scheduled, or
  it is the handle of the one scheduled timer, which is not yet due.
\<close>

definition timer_ok :: "timing \<Rightarrow> bool" where
  "timer_ok t =
     (0 < nextHandle t \<and>
      (case refreshTimer t of
         None \<Rightarrow> pending t = []
       | Some h \<Rightarrow>
           0 < h \<and> h < nextHandle t \<and>
           (case pending t of
              [] \<Rightarrow> False
            | (h', d) # rest \<Rightarrow> rest = [] \<and> h' = h \<and> now t < d)))"

text \<open>A timer for \<open>refresh\<close> is scheduled for the time \<open>d\<close>, and \<open>refreshTimer\<close> holds its handle.\<close>

definition armed :: "timing \<Rightarrow> nat \<Rightarrow> bool" where
  "armed t d =
     (case refreshTimer t of
        None \<Rightarrow> False
      | Some h \<Rightarrow> 0 < h \<and> h < nextHandle t \<and> pending t = [(h, d)])"

section \<open>The control surface and the orchestrator\<close>

text \<open>
  A checkbox of the control block: its \<open>value\<close>, its \<open>checked\<close> state, the script's mark
  \<open>_anichart_listening\<close>, and the number of times \<open>addEventListener("change",
  onCheckboxClicked)\<close> has been called on it (the platform would ignore a repeated
  registration of the same function; the model counts every call).
\<close>

record input =
  input_value :: string
  checked :: bool
  anichart_listening :: bool
  change_listeners :: nat

text \<open>
  A child of an element of class \<open>filters\<close>: either the control block (the element with
  id \<open>anichart-filter-html\<close>, with its checkboxes) or an element of the host page.
\<close>

datatype child = FilterRoot "input list" | HostChild

fun is_root :: "child \<Rightarrow> bool" where
  "is_root (FilterRoot inputs) = True"
| "is_root HostChild = False"

definition has_root :: "child list \<Rightarrow> bool" where
  "has_root cs = list_ex is_root cs"

text \<open>The loop over \<open>root.getElementsByTagName("input")\<close>, for one checkbox.\<close>

definition restore_input :: "js_set \<Rightarrow> input \<Rightarrow> input" where
  "restore_input S i =
     (let i1 = (if \<not> anichart_listening i
                then i\<lparr>anichart_listening := True, change_listeners := change_listeners i + 1\<rparr>
                else i)
      in i1\<lparr>checked := Set_has S (JString (input_value i1))\<rparr>)"

text \<open>The markup that \<open>root.innerHTML\<close> builds: one unchecked checkbox for each known colour.\<close>

definition fresh_inputs :: "input list" where
  "fresh_inputs =
     map (\<lambda>color. \<lparr>input_value = color, checked = False, anichart_listening = False,
                    change_listeners = 0\<rparr>) KNOWN_COLORS"

text \<open>
  \<open>document.getElementById("anichart-filter-html")\<close> finds the first control block in
  document order; the loop then rewrites the checkboxes of that block.
\<close>

fun map_first_root :: "(input list \<Rightarrow> input list) \<Rightarrow> child list \<Rightarrow> child list" where
  "map_first_root f [] = []"
| "map_first_root f (FilterRoot inputs # cs) = FilterRoot (f inputs) # cs"
| "map_first_root f (HostChild # cs) = HostChild # map_first_root f cs"

fun update_root :: "(input list \<Rightarrow> input list) \<Rightarrow> child list list \<Rightarrow> child list list" where
  "update_root f [] = []"
| "update_root f (c # cs) =
     (if has_root c then map_first_root f c # cs else c # update_root f cs)"

text \<open>
  \<open>initializeHtml\<close>: when there is no control block and no element of class \<open>filters\<close>
  it returns; when there is no control block it builds one and inserts it before the
  first child of \<open>filters[0]\<close>; in both remaining cases it attaches the listeners and
  restores the checked states.
\<close>

definition initializeHtml :: "js_set \<Rightarrow> child list list \<Rightarrow> child list list" where
  "initializeHtml S fs =
     (if list_ex has_root fs then update_root (map (restore_input S)) fs
      else (case fs of
              [] \<Rightarrow> []
            | f0 # rest \<Rightarrow> (FilterRoot (map (restore_input S) fresh_inputs) # f0) # rest))"

definition count_roots :: "child list list \<Rightarrow> nat" where
  "count_roots fs = length (filter is_root (concat fs))"

text \<open>
  The part of the page that the setup touches, which every run of the script in the
  page shares: the number of elements with id \<open>anichart-filter-css\<close>, the elements of
  class \<open>filters\<close> in document order, each with its children, and the number of mutation
  observers that observe \<open>document.body\<close>.
\<close>

record document =
  css_blocks :: nat
  filters :: "child list list"
  observers :: nat

text \<open>
  One run of the script: its own variables \<open>SELECTED_COLORS\<close> and \<open>mainObserver\<close>
  (\<open>True\<close> when it is not \<open>null\<close>), the document, and the run's own timers.
\<close>

record session =
  SELECTED_COLORS :: js_set
  mainObserver :: bool
  doc :: document
  timing :: timing

definition initializeCss :: "document \<Rightarrow> document" where
  "initializeCss d = (if 0 < css_blocks d then d else d\<lparr>css_blocks := css_blocks d + 1\<rparr>)"

definition setupObservers :: "session \<Rightarrow> session" where
  "setupObservers s =
     (if mainObserver s then s
      else s\<lparr>mainObserver := True, doc := (doc s)\<lparr>observers := observers (doc s) + 1\<rparr>\<rparr>)"

definition initialize :: "session \<Rightarrow> session" where
  "initialize s =
     (let d1 = initializeCss (doc s);
          d2 = d1\<lparr>filters := initializeHtml (SELECTED_COLORS s) (filters d1)\<rparr>;
          s3 = setupObservers (s\<lparr>doc := d2\<rparr>)
      in s3\<lparr>timing := debounceRefresh (timing s3)\<rparr>)"

text \<open>
  The script, run in a page: line 15 loads the selection and may throw, lines 20 and 21
  give the run its variables \<open>refreshTimer = null\<close> and \<open>mainObserver = null\<close>, and line
  240 calls \<open>initialize\<close>, once. A further injection of the script into the same page
  is a further run on the document that the earlier run has left.
\<close>

definition script :: "codeunit list option \<Rightarrow> document \<Rightarrow> error + session" where
  "script item d =
     (case SELECTED_COLORS_init item of
        Inl e \<Rightarrow> Inl e
      | Inr S \<Rightarrow>
          Inr (initialize
                 \<lparr>SELECTED_COLORS = S, mainObserver = False, doc = d, timing = timing_init\<rparr>))"

text \<open>The calls that the observer callback makes, applied to the session.\<close>

fun perform :: "session \<Rightarrow> action \<Rightarrow> session" where
  "perform s InitializeHtml =
     s\<lparr>doc := (doc s)\<lparr>filters := initializeHtml (SELECTED_COLORS s) (filters (doc s))\<rparr>\<rparr>"
| "perform s DebounceRefresh = s\<lparr>timing := debounceRefresh (timing s)\<rparr>"

section \<open>Properties of the values and the Set\<close>

lemma unat_ch: "unat (ch c) = of_char c"
proof -
  have "ch c = of_nat (of_char c)" by (simp add: ch_def of_nat_of_char)
  then have "unat (ch c) = (of_char c :: nat) mod 2 ^ 16"
    by (simp only: unat_of_nat len_of_numeral_defs) simp
  moreover have "(of_char c :: nat) < 2 ^ 16"
  proof -
    have "(of_char c :: nat) < 256" by simp
    also have "(256 :: nat) < 2 ^ 16" by simp
    finally show ?thesis .
  qed
  ultimately show ?thesis by simp
qed

lemma ch_eq_iff: "ch a = ch b \<longleftrightarrow> a = b"
proof
  assume "ch a = ch b"
  then have "unat (ch a) = unat (ch b)" by simp
  then have "(of_char a :: nat) = of_char b" by (simp only: unat_ch)
  then show "a = b" by simp
qed simp

lemma units_eq_iff: "units s = units t \<longleftrightarrow> s = t"
proof
  assume "units s = units t"
  then show "s = t"
  proof (induction s arbitrary: t)
    case Nil
    then show ?case by (simp add: units_def)
  next
    case (Cons c s)
    then obtain d t' where "t = d # t'" by (cases t) (auto simp: units_def)
    with Cons show ?case by (auto simp: units_def ch_eq_iff)
  qed
qed simp

lemma JString_eq_iff [simp]: "JString s = JString t \<longleftrightarrow> s = t"
  by (simp add: JString_def units_eq_iff)

lemma sameValueZero_JStr: "sameValueZero (JStr s) x = (x = JStr s)"
  by (cases x) auto

lemma sameValueZero_JString [simp]: "sameValueZero (JString s) x = (x = JString s)"
  by (simp add: JString_def sameValueZero_JStr)

lemma Set_has_JStr: "Set_has S (JStr s) = (JStr s \<in> set S)"
  by (auto simp: Set_has_def list_ex_iff sameValueZero_JStr)

lemma Set_has_JString: "Set_has S (JString s) = (JString s \<in> set S)"
  by (simp add: JString_def Set_has_JStr)







section \<open>Properties of the pattern and the visibility expression\<close>

lemma match_here_nonempty: "match_here s \<noteq> Some []"
  by (simp add: match_here_def split: list.splits)

lemma COLOR_RE_exec_nonempty: "COLOR_RE_exec s \<noteq> Some []"
  by (induction s) (auto simp: match_here_nonempty split: option.splits)

lemma colorInCard_nonempty: "colorInCard s \<noteq> Some []"
  using COLOR_RE_exec_nonempty [of s]
  by (auto simp: colorInCard_def split: option.splits)

lemma show_card_Some:
  "t \<noteq> [] \<Longrightarrow> show_card S (Some t) = (Set_size S = 0 \<or> Set_has S (JString t))"
  by (simp add: show_card_def noFilters_def truthy_def)

lemma show_card_None:
  "show_card S None = (Set_size S = 0 \<or> Set_has S (JString ''gray''))"
  by (simp add: show_card_def noFilters_def truthy_def)

lemma show_card_empty: "Set_size S = 0 \<Longrightarrow> show_card S c"
  by (simp add: show_card_def noFilters_def)

text \<open>
  C2. The token of a card is what \<open>colorInCard\<close> extracts, which is never the empty
  string. For every such token \<open>c\<close> (absent when \<open>c = None\<close>) and every selection
  \<open>S\<close>: an empty selection shows the card; a non-empty selection shows it exactly when
  \<open>c\<close> is present and a member of \<open>S\<close>, or \<open>c\<close> is absent and \<open>"gray"\<close> is a member of
  \<open>S\<close>.
\<close>

theorem show_card_spec:
  "colorInCard cssText \<noteq> Some [] \<and>
   (c \<noteq> Some [] \<longrightarrow>
      (Set_size S = 0 \<longrightarrow> show_card S c) \<and>
      (Set_size S \<noteq> 0 \<longrightarrow>
         show_card S c =
           ((\<exists>t. c = Some t \<and> Set_has S (JString t)) \<or>
            (c = None \<and> Set_has S (JString ''gray'')))))"
proof (intro conjI impI)
  show "colorInCard cssText \<noteq> Some []" by (rule colorInCard_nonempty)
next
  assume "Set_size S = 0"
  then show "show_card S c" by (rule show_card_empty)
next
  assume c: "c \<noteq> Some []" and S: "Set_size S \<noteq> 0"
  show "show_card S c =
     ((\<exists>t. c = Some t \<and> Set_has S (JString t)) \<or>
      (c = None \<and> Set_has S (JString ''gray'')))"
  proof (cases c)
    case None
    then show ?thesis using S by (simp add: show_card_None)
  next
    case (Some t)
    with c have "t \<noteq> []" by simp
    then show ?thesis using S Some by (simp add: show_card_Some)
  qed
qed

theorem show_card_spec_witness:
  "colorInCard ''background: var(--color-red)'' = Some ''red'' \<and>
   Set_size (Set_of_list [JString ''red'', JString ''gray'']) = 2 \<and>
   show_card (Set_of_list [JString ''red'', JString ''gray'']) (Some ''red'') \<and>
   show_card (Set_of_list [JString ''red'', JString ''gray'']) None \<and>
   \<not> show_card (Set_of_list [JString ''red'', JString ''gray'']) (Some ''green'') \<and>
   show_card (Set_of_list []) (Some ''green'')"
proof -
  have ex: "colorInCard ''background: var(--color-red)'' = Some ''red''"
    by code_simp
  have S: "Set_of_list [JString ''red'', JString ''gray''] = [JString ''red'', JString ''gray'']"
    "Set_of_list [] = []"
    by (simp_all add: Set_of_list_def Set_add_def Set_has_def)
  show ?thesis
    using show_card_spec [of "''x''" "Some ''red''" "[JString ''red'', JString ''gray'']"]
      show_card_spec [of "''x''" "Some ''green''" "[JString ''red'', JString ''gray'']"]
      show_card_spec [of "''x''" "None" "[JString ''red'', JString ''gray'']"]
      show_card_spec [of "''x''" "Some ''green''" "[]"]
    by (simp add: ex S Set_has_def Set_size_def)
qed

text \<open>
  C3, as stated, fails: with the selection \<open>{"gray"}\<close> a card whose token \<open>blue\<close> is
  outside the palette is hidden, while a card with no token is shown.
\<close>

theorem out_of_palette_counterexample:
  "colorInCard ''--color-blue'' = Some ''blue'' \<and>
   ''blue'' \<notin> set KNOWN_COLORS \<and>
   \<not> show_card (Set_of_list [JString ''gray'']) (colorInCard ''--color-blue'') \<and>
   show_card (Set_of_list [JString ''gray'']) None"
proof -
  have "colorInCard ''--color-blue'' = Some ''blue''" by code_simp
  then show ?thesis
    by (simp add: KNOWN_COLORS_def show_card_def noFilters_def truthy_def
        Set_of_list_def Set_add_def Set_has_def Set_size_def)
qed

text \<open>
  C3, amended. The visibility expression has a value for every token and selection. A
  card with no extractable token is shown exactly when the selection is empty or holds
  \<open>"gray"\<close>. A card whose token \<open>t\<close> is outside the palette is not treated as one without
  a token: it is shown exactly when the selection is empty or holds \<open>t\<close> itself, so with
  the selection \<open>{"gray"}\<close> it is hidden.
\<close>

theorem show_card_out_of_palette:
  "show_card S None = (Set_size S = 0 \<or> Set_has S (JString ''gray'')) \<and>
   (t \<noteq> [] \<and> t \<notin> set KNOWN_COLORS \<longrightarrow>
      show_card S (Some t) = (Set_size S = 0 \<or> Set_has S (JString t)) \<and>
      \<not> show_card (Set_of_list [JString ''gray'']) (Some t))"
  by (auto simp: show_card_Some show_card_None KNOWN_COLORS_def
      Set_of_list_def Set_add_def Set_has_def Set_size_def)

theorem show_card_out_of_palette_witness:
  "''blue'' \<notin> set KNOWN_COLORS \<and>
   show_card [JString ''blue''] (Some ''blue'') \<and>
   \<not> show_card (Set_of_list [JString ''gray'']) (Some ''blue'')"
  using show_card_out_of_palette [of "[JString ''blue'']" "''blue''"]
  by (simp add: KNOWN_COLORS_def Set_has_def Set_size_def)

section \<open>Properties of the startup load\<close>

lemma finish_error: "finish p = Inl e \<Longrightarrow> e = SyntaxError"
  by (cases p rule: finish.cases) (auto split: if_splits)

lemma JSON_parse_error: "JSON_parse text = Inl e \<Longrightarrow> e = SyntaxError"
  by (auto simp: JSON_parse_def dest: finish_error)

lemma parse_empty_array: "JSON_parse (units ''[]'') = Inr (JArray [])"
  by code_simp

lemma units_nonempty: "units (c # s) \<noteq> []"
  by (simp add: units_def)

lemma load_missing: "SELECTED_COLORS_init None = Inr []"
  by (simp add: SELECTED_COLORS_init_def load_def parse_empty_array Set_of_list_def)

lemma load_empty_text: "SELECTED_COLORS_init (Some []) = Inr []"
  by (simp add: SELECTED_COLORS_init_def load_def parse_empty_array Set_of_list_def)

lemma load_text:
  "text \<noteq> [] \<Longrightarrow> SELECTED_COLORS_init (Some text) =
     (case JSON_parse text of Inl e \<Rightarrow> Inl e | Inr v \<Rightarrow> new_Set v)"
  by (simp add: SELECTED_COLORS_init_def load_def)

text \<open>
  C1, as stated, fails: a stored text that is not JSON makes the load throw
  \<open>SyntaxError\<close>, and a stored JSON object or number makes it throw \<open>TypeError\<close>; the
  result is not the empty set.
\<close>

theorem load_malformed_counterexample:
  "SELECTED_COLORS_init (Some (units ''green'')) = Inl SyntaxError \<and>
   SELECTED_COLORS_init (Some (units ''{}'')) = Inl TypeError \<and>
   SELECTED_COLORS_init (Some (units ''7'')) = Inl TypeError"
  by code_simp

text \<open>
  C1, amended. Loading the persisted selection gives the empty set when the stored value
  is missing or is the empty string. Otherwise the stored text goes to \<open>JSON.parse\<close>
  unguarded: a text that is not JSON makes the load throw \<open>SyntaxError\<close>; a JSON number,
  boolean or object makes it throw \<open>TypeError\<close>; \<open>null\<close> gives the empty set, an array
  the set of its elements and a string the set of its code points.
\<close>

theorem load_spec:
  "SELECTED_COLORS_init None = Inr [] \<and>
   SELECTED_COLORS_init (Some []) = Inr [] \<and>
   (text \<noteq> [] \<and> (\<forall>v. JSON_parse text \<noteq> Inr v) \<longrightarrow>
      SELECTED_COLORS_init (Some text) = Inl SyntaxError) \<and>
   (text \<noteq> [] \<and> JSON_parse text = Inr v \<longrightarrow>
      SELECTED_COLORS_init (Some text) =
        (case v of
           JNull \<Rightarrow> Inr []
         | JArray vs \<Rightarrow> Inr (Set_of_list vs)
         | JStr s \<Rightarrow> Inr (Set_of_list (map JStr (code_points s)))
         | JBool b \<Rightarrow> Inl TypeError
         | JNumber m e \<Rightarrow> Inl TypeError
         | JObject \<Rightarrow> Inl TypeError))"
proof (intro conjI impI)
  show "SELECTED_COLORS_init None = Inr []" by (rule load_missing)
  show "SELECTED_COLORS_init (Some []) = Inr []" by (rule load_empty_text)
next
  assume a: "text \<noteq> [] \<and> (\<forall>v. JSON_parse text \<noteq> Inr v)"
  then obtain e where "JSON_parse text = Inl e" by (cases "JSON_parse text") auto
  moreover from this have "e = SyntaxError" by (rule JSON_parse_error)
  ultimately show "SELECTED_COLORS_init (Some text) = Inl SyntaxError"
    using a by (simp add: load_text)
next
  assume "text \<noteq> [] \<and> JSON_parse text = Inr v"
  then show "SELECTED_COLORS_init (Some text) =
        (case v of
           JNull \<Rightarrow> Inr []
         | JArray vs \<Rightarrow> Inr (Set_of_list vs)
         | JStr s \<Rightarrow> Inr (Set_of_list (map JStr (code_points s)))
         | JBool b \<Rightarrow> Inl TypeError
         | JNumber m e \<Rightarrow> Inl TypeError
         | JObject \<Rightarrow> Inl TypeError)"
    by (cases v) (simp_all add: load_text)
qed

theorem load_spec_witness:
  "SELECTED_COLORS_init (Some (units ''nope'')) = Inl SyntaxError \<and>
   SELECTED_COLORS_init (Some (units ''{\"a\": 1}'')) = Inl TypeError \<and>
   SELECTED_COLORS_init (Some (units ''[\"red\", \"blue\"]'')) =
     Inr [JString ''red'', JString ''blue''] \<and>
   SELECTED_COLORS_init (Some (units ''[\"'' @ [0x5C] @ units ''u0100\", 0.1, 0.10000000000000001]'')) =
     Inr [JStr [0x100], JNumber 1 (- 1)]"
proof -
  let ?t4 = "units ''[\"'' @ [0x5C] @ units ''u0100\", 0.1, 0.10000000000000001]''"
  have p1: "\<forall>v. JSON_parse (units ''nope'') \<noteq> Inr v"
  proof -
    have "JSON_parse (units ''nope'') = Inl SyntaxError" by code_simp
    then show ?thesis by simp
  qed
  have p2: "JSON_parse (units ''{\"a\": 1}'') = Inr JObject"
    by code_simp
  have p3: "JSON_parse (units ''[\"red\", \"blue\"]'') =
      Inr (JArray [JString ''red'', JString ''blue''])"
    unfolding JString_def by code_simp
  have p4: "JSON_parse ?t4 =
      Inr (JArray [JStr [0x100], JNumber 1 (- 1), JNumber 10000000000000001 (- 17)])"
    by code_simp
  have s3: "Set_of_list [JString ''red'', JString ''blue''] = [JString ''red'', JString ''blue'']"
    by (simp add: Set_of_list_def Set_add_def Set_has_def)
  have s4: "Set_of_list [JStr [0x100], JNumber 1 (- 1), JNumber 10000000000000001 (- 17)] =
      [JStr [0x100], JNumber 1 (- 1)]"
    by code_simp
  have n: "units ''nope'' \<noteq> []" "units ''{\"a\": 1}'' \<noteq> []"
    "units ''[\"red\", \"blue\"]'' \<noteq> []" "?t4 \<noteq> []"
    by (simp_all add: units_def)
  show ?thesis
    using load_spec [of "units ''nope''"] p1
      load_spec [of "units ''{\"a\": 1}''" JObject] p2
      load_spec [of "units ''[\"red\", \"blue\"]''" "JArray [JString ''red'', JString ''blue'']"] p3
      load_spec [of ?t4 "JArray [JStr [0x100], JNumber 1 (- 1), JNumber 10000000000000001 (- 17)]"] p4
      n
    by (simp add: s3 s4)
qed

section \<open>Properties of the refresh pass\<close>


lemma mark_aired_fields [simp]:
  "episode (mark_aired c) = episode c"
  "highlighter (mark_aired c) = highlighter c"
  "display (mark_aired c) = display c"
  by (simp_all add: mark_aired_def)




lemma refresh_card_error: "snd (refresh_card S c) = Some e \<Longrightarrow> e = TypeError"
  by (auto simp: refresh_card_def Let_def split: option.splits)


lemma refresh_loop_length: "length (fst (refresh_loop S cs)) = length cs"
  by (induction cs) (auto split: prod.splits option.splits)

lemma refresh_loop_all_ok:
  "list_all (\<lambda>c. snd (refresh_card S c) = None) cs \<Longrightarrow>
   refresh_loop S cs = (map (\<lambda>c. fst (refresh_card S c)) cs, None)"
  by (induction cs) (auto split: prod.splits option.splits)

lemma refresh_loop_fault:
  "list_all (\<lambda>c. snd (refresh_card S c) = None) pre \<Longrightarrow> snd (refresh_card S c) = Some e \<Longrightarrow>
   refresh_loop S (pre @ c # post) =
     (map (\<lambda>c. fst (refresh_card S c)) pre @ fst (refresh_card S c) # post, Some e)"
  by (induction pre) (auto split: prod.splits option.splits)





lemma refresh_no_throw: "snd (refresh S p) = None"
  by (auto simp: refresh_def split: prod.splits option.splits)

lemma refresh_all_ok:
  assumes "list_all (\<lambda>c. snd (refresh_card S c) = None) (cards p)"
  shows "fst (refresh S p) =
     p\<lparr>cards := map (\<lambda>c. fst (refresh_card S c)) (cards p),
       resize_events := resize_events p + 1\<rparr>"
  using refresh_loop_all_ok [OF assms]
  by (simp add: refresh_def refresh_try_def Let_def)

lemma refresh_fault:
  assumes "cards p = pre @ c # post"
    and "list_all (\<lambda>c. snd (refresh_card S c) = None) pre"
    and "snd (refresh_card S c) = Some e"
  shows "fst (refresh S p) =
     p\<lparr>cards := map (\<lambda>c. fst (refresh_card S c)) pre @ fst (refresh_card S c) # post,
       resize_events := resize_events p + 1,
       console := console p @ [e]\<rparr>"
  using refresh_loop_fault [OF assms(2,3), of post] assms(1)
  by (simp add: refresh_def refresh_try_def Let_def)

text \<open>
  C4, as stated, fails in its second half. The first card's highlighter has no \<open>style\<close>
  object, so its body raises; the exception is caught and logged, and the second card is
  never visited: it keeps its display and gets no marker, although its own body would
  hide it and mark it.
\<close>

theorem refresh_abort_counterexample:
  "refresh [JString ''green'']
     \<lparr>cards =
        [\<lparr>classList = [''media-card''], episode = None, highlighter = Some None,
           display = Some []\<rparr>,
         \<lparr>classList = [''media-card''], episode = Some ''has aired'',
           highlighter = Some (Some ''--color-red''), display = Some []\<rparr>],
      resize_events = 0, console = []\<rparr>
   = (\<lparr>cards =
        [\<lparr>classList = [''media-card''], episode = None, highlighter = Some None,
           display = Some []\<rparr>,
         \<lparr>classList = [''media-card''], episode = Some ''has aired'',
           highlighter = Some (Some ''--color-red''), display = Some []\<rparr>],
      resize_events = 1, console = [TypeError]\<rparr>, None) \<and>
   refresh_card [JString ''green'']
     \<lparr>classList = [''media-card''], episode = Some ''has aired'',
       highlighter = Some (Some ''--color-red''), display = Some []\<rparr>
   = (\<lparr>classList = [''media-card'', ''anichart-filter-card-aired''],
       episode = Some ''has aired'',
       highlighter = Some (Some ''--color-red''), display = Some ''none''\<rparr>, None)"
proof -
  have c: "colorInCard ''--color-red'' = Some ''red''" by code_simp
  have i: "includes_str ''has aired'' ''aired''" by code_simp
  show ?thesis
    by (simp add: refresh_def refresh_try_def refresh_card_def mark_aired_def Let_def
        classList_add_def classList_remove_def AIRED_CLASS_def c i
        show_card_def noFilters_def truthy_def Set_has_def Set_size_def)
qed

text \<open>
  C4, amended. \<open>refresh\<close> never lets an exception reach its caller: a fault during the
  pass is caught by the one \<open>try\<close> around the whole body, logged once and suppressed. A
  fault raised while processing one card ends the pass: the cards before it have been
  processed, the faulting card keeps what its body wrote before raising, and the cards
  after it are left as they were. A pass without a fault processes every card and logs
  nothing.
\<close>

theorem refresh_catches:
  "snd (refresh S p) = None \<and>
   (list_all (\<lambda>c. snd (refresh_card S c) = None) (cards p) \<longrightarrow>
      fst (refresh S p) =
        p\<lparr>cards := map (\<lambda>c. fst (refresh_card S c)) (cards p),
          resize_events := resize_events p + 1\<rparr>) \<and>
   (cards p = pre @ c # post \<and>
    list_all (\<lambda>c. snd (refresh_card S c) = None) pre \<and>
    snd (refresh_card S c) = Some e \<longrightarrow>
      fst (refresh S p) =
        p\<lparr>cards := map (\<lambda>c. fst (refresh_card S c)) pre @ fst (refresh_card S c) # post,
          resize_events := resize_events p + 1,
          console := console p @ [e]\<rparr>)"
  using refresh_no_throw [of S p] refresh_all_ok [of S p] refresh_fault [of p pre c post S e]
  by blast

theorem refresh_catches_witness:
  "fst (refresh [JString ''green'']
     \<lparr>cards =
        [\<lparr>classList = [], episode = None, highlighter = None, display = Some []\<rparr>,
         \<lparr>classList = [], episode = None, highlighter = Some None, display = Some []\<rparr>,
         \<lparr>classList = [], episode = Some ''aired'', highlighter = None, display = Some []\<rparr>],
      resize_events = 0, console = []\<rparr>)
   = \<lparr>cards =
        [\<lparr>classList = [], episode = None, highlighter = None, display = Some []\<rparr>,
         \<lparr>classList = [], episode = None, highlighter = Some None, display = Some []\<rparr>,
         \<lparr>classList = [], episode = Some ''aired'', highlighter = None, display = Some []\<rparr>],
      resize_events = 1, console = [TypeError]\<rparr> \<and>
   fst (refresh [JString ''green'']
     \<lparr>cards =
        [\<lparr>classList = [], episode = Some ''aired'', highlighter = None, display = Some []\<rparr>],
      resize_events = 0, console = []\<rparr>)
   = \<lparr>cards =
        [\<lparr>classList = [''anichart-filter-card-aired''], episode = Some ''aired'',
           highlighter = None, display = Some []\<rparr>],
      resize_events = 1, console = []\<rparr>"
proof -
  have i: "includes_str ''aired'' ''aired''" by code_simp
  show ?thesis
    using refresh_catches [of "[JString ''green'']"
        "\<lparr>cards =
          [\<lparr>classList = [], episode = None, highlighter = None, display = Some []\<rparr>,
           \<lparr>classList = [], episode = None, highlighter = Some None, display = Some []\<rparr>,
           \<lparr>classList = [], episode = Some ''aired'', highlighter = None, display = Some []\<rparr>],
         resize_events = 0, console = []\<rparr>"
        "[\<lparr>classList = [], episode = None, highlighter = None, display = Some []\<rparr>]"
        "\<lparr>classList = [], episode = None, highlighter = Some None, display = Some []\<rparr>"
        "[\<lparr>classList = [], episode = Some ''aired'', highlighter = None, display = Some []\<rparr>]"
        TypeError]
      refresh_catches [of "[JString ''green'']"
        "\<lparr>cards =
          [\<lparr>classList = [], episode = Some ''aired'', highlighter = None, display = Some []\<rparr>],
         resize_events = 0, console = []\<rparr>"]
    by (simp add: refresh_card_def mark_aired_def Let_def i
        classList_add_def classList_remove_def AIRED_CLASS_def)
qed















section \<open>Properties of the mutation watcher\<close>

lemma touches_filters_spec:
  "is_element r \<and> touches_filters r \<longleftrightarrow> spec_controls_node r"
  by (auto simp: touches_filters_def spec_controls_node_def querySelector_filters_def
      list_ex_iff)

lemma scan_nodes_filters:
  "pendingFiltersChange (scan_nodes f rs) \<longleftrightarrow>
     pendingFiltersChange f \<or> (\<exists>r \<in> set rs. spec_controls_node r)"
proof (induction rs arbitrary: f)
  case Nil
  then show ?case by simp
next
  case (Cons r rs)
  show ?case
  proof (cases "nodeType (node r) = 1")
    case False
    then have "\<not> spec_controls_node r" by (simp add: spec_controls_node_def is_element_def)
    with False Cons.IH show ?thesis by simp
  next
    case True
    then have e: "is_element r" by (simp add: is_element_def)
    have t: "touches_filters r = spec_controls_node r"
      using e touches_filters_spec [of r] by simp
    show ?thesis
      using True Cons.IH by (auto simp: Let_def t both_def)
  qed
qed

lemma classify_filters:
  "pendingFiltersChange (classify f m) \<longleftrightarrow>
     pendingFiltersChange f \<or> spec_controls_changed [m]"
  by (cases m) (auto simp: scan_nodes_filters spec_controls_changed_def)

lemma spec_controls_changed_Cons:
  "spec_controls_changed (m # ms) \<longleftrightarrow> spec_controls_changed [m] \<or> spec_controls_changed ms"
  by (auto simp: spec_controls_changed_def)

lemma scan_records_filters:
  "pendingFiltersChange (scan_records f ms) \<longleftrightarrow>
     pendingFiltersChange f \<or> (\<not> both f \<and> spec_controls_changed ms)"
proof (induction ms arbitrary: f)
  case Nil
  then show ?case by (auto simp: spec_controls_changed_def)
next
  case (Cons m ms)
  show ?case
    using Cons.IH [of "classify f m"] spec_controls_changed_Cons [of m ms]
    by (auto simp: classify_filters both_def)
qed

lemma callback_flags:
  "fst (observer_callback f ms) = \<lparr>pendingCardsChange = False, pendingFiltersChange = False\<rparr>"
  by (cases "scan_records f ms") (auto simp: observer_callback_def Let_def)

lemma callback_actions:
  "snd (observer_callback f ms) =
     (if pendingFiltersChange (scan_records f ms) then [InitializeHtml] else []) @
     (if pendingCardsChange (scan_records f ms) then [DebounceRefresh] else [])"
  by (auto simp: observer_callback_def Let_def)

lemma callback_controls:
  "InitializeHtml \<in> set (snd (observer_callback
       \<lparr>pendingCardsChange = False, pendingFiltersChange = False\<rparr> ms))
     \<longleftrightarrow> spec_controls_changed ms"
  by (simp add: callback_actions scan_records_filters both_def)

text \<open>
  C6. The claim asks for a debounced refresh when a record removes an element node that
  is inside a card. Here the card's highlighter is removed from the card: the record's
  target is the card, and the removed node is detached when the callback runs, so that
  \<open>node.matches(".media-card *, .airing-card *")\<close> fails and no flag is set. The callback
  requests nothing. (When the same node is added to the card, or when an attribute
  record has the card as its target, the refresh is requested.)
\<close>

theorem removed_from_card_not_refreshed:
  "spec_cards_changed
     [ChildList
        \<lparr>node = Element [''media-card''] [Element [''cover''] []], ancestors = [[''chart-view'']]\<rparr>
        []
        [\<lparr>node = Element [''highlighter''] [], ancestors = []\<rparr>]] \<and>
   observer_callback \<lparr>pendingCardsChange = False, pendingFiltersChange = False\<rparr>
     [ChildList
        \<lparr>node = Element [''media-card''] [Element [''cover''] []], ancestors = [[''chart-view'']]\<rparr>
        []
        [\<lparr>node = Element [''highlighter''] [], ancestors = []\<rparr>]]
   = (\<lparr>pendingCardsChange = False, pendingFiltersChange = False\<rparr>, []) \<and>
   observer_callback \<lparr>pendingCardsChange = False, pendingFiltersChange = False\<rparr>
     [ChildList
        \<lparr>node = Element [''media-card''] [Element [''cover''] [], Element [''highlighter''] []],
          ancestors = [[''chart-view'']]\<rparr>
        [\<lparr>node = Element [''highlighter''] [], ancestors = [[''media-card''], [''chart-view'']]\<rparr>]
        []]
   = (\<lparr>pendingCardsChange = False, pendingFiltersChange = False\<rparr>, [DebounceRefresh]) \<and>
   observer_callback \<lparr>pendingCardsChange = False, pendingFiltersChange = False\<rparr>
     [Attributes
        \<lparr>node = Element [''media-card''] [Element [''cover''] []], ancestors = [[''chart-view'']]\<rparr>]
   = (\<lparr>pendingCardsChange = False, pendingFiltersChange = False\<rparr>, [DebounceRefresh])"
  by (simp add: spec_cards_changed_def spec_cards_node_def card_or_inside_card_def
      is_element_def is_card_def observer_callback_def Let_def both_def
      touches_filters_def touches_cards_def querySelector_filters_def querySelector_card_def
      matches_inside_card_def closest_card_def is_card_classes_def)

section \<open>Properties of the debounced refresher\<close>

lemma armed_iff:
  "armed t d \<longleftrightarrow>
     (\<exists>h. 0 < h \<and> h < nextHandle t \<and> refreshTimer t = Some h \<and> pending t = [(h, d)])"
  by (auto simp: armed_def split: option.splits)

lemma timer_ok_cases:
  "timer_ok t \<longleftrightarrow> 0 < nextHandle t \<and>
     ((refreshTimer t = None \<and> pending t = []) \<or> (\<exists>d. armed t d \<and> now t < d))"
  by (auto simp: timer_ok_def armed_iff split: option.splits list.splits)

lemma debounceRefresh_ok:
  assumes "timer_ok t"
  shows "debounceRefresh t =
     t\<lparr>pending := [(nextHandle t, now t + REFRESH_DEBOUNCE_MS)],
       nextHandle := nextHandle t + 1,
       refreshTimer := Some (nextHandle t)\<rparr>"
  using assms
  by (auto simp: timer_ok_def debounceRefresh_def setTimeout_def clearTimeout_def Let_def
      split: option.splits list.splits)

lemma debounceRefresh_armed:
  assumes "timer_ok t"
  shows "armed (debounceRefresh t) (now t + REFRESH_DEBOUNCE_MS)"
    and "now (debounceRefresh t) = now t"
    and "runs (debounceRefresh t) = runs t"
  using assms by (auto simp: debounceRefresh_ok armed_iff timer_ok_def)

lemma tick_idle:
  "pending t = [] \<Longrightarrow> tick t = t\<lparr>now := now t + 1\<rparr>"
  by (simp add: tick_def Let_def)

lemma tick_waiting:
  "armed t d \<Longrightarrow> now t + 1 < d \<Longrightarrow> tick t = t\<lparr>now := now t + 1\<rparr>"
  by (auto simp: tick_def Let_def armed_iff)

lemma tick_fires:
  "armed t d \<Longrightarrow> d \<le> now t + 1 \<Longrightarrow>
   tick t = t\<lparr>now := now t + 1, pending := [], runs := runs t @ [now t + 1],
            refreshTimer := None\<rparr>"
  by (auto simp: tick_def Let_def armed_iff timer_callback_def)


lemma run_append: "run t (es @ fs) = run (run t es) fs"
  by (simp add: run_def)

lemma run_Cons: "run t (e # es) = run (step_event t e) es"
  by (simp add: run_def)

lemma run_Nil: "run t [] = t"
  by (simp add: run_def)

lemma ticks_idle:
  "pending t = [] \<Longrightarrow> run t (replicate n Tick) = t\<lparr>now := now t + n\<rparr>"
proof (induction n arbitrary: t)
  case 0
  then show ?case by (simp add: run_Nil)
next
  case (Suc n)
  have "pending (t\<lparr>now := now t + 1\<rparr>) = []" using Suc.prems by simp
  from Suc.IH [OF this] show ?case
    using Suc.prems by (simp add: run_Cons tick_idle)
qed

lemma armed_now: "armed (t\<lparr>now := m\<rparr>) d = armed t d"
  by (simp add: armed_iff)

lemma ticks_waiting:
  "armed t d \<Longrightarrow> now t + n < d \<Longrightarrow> run t (replicate n Tick) = t\<lparr>now := now t + n\<rparr>"
proof (induction n arbitrary: t)
  case 0
  then show ?case by (simp add: run_Nil)
next
  case (Suc n)
  have t: "tick t = t\<lparr>now := now t + 1\<rparr>"
    using Suc.prems by (simp add: tick_waiting)
  have "run (t\<lparr>now := now t + 1\<rparr>) (replicate n Tick) =
      (t\<lparr>now := now t + 1\<rparr>)\<lparr>now := now (t\<lparr>now := now t + 1\<rparr>) + n\<rparr>"
    using Suc.prems by (intro Suc.IH) (simp_all add: armed_now)
  then show ?case by (simp add: run_Cons t)
qed

lemma ticks_fire:
  assumes "armed t d" and "now t < d" and "d \<le> now t + n"
  shows "run t (replicate n Tick) =
     t\<lparr>now := now t + n, pending := [], runs := runs t @ [d], refreshTimer := None\<rparr>"
proof -
  define a where "a = d - now t - 1"
  define b where "b = n - (d - now t)"
  have n: "n = a + (1 + b)" using assms by (simp add: a_def b_def)
  have w: "run t (replicate a Tick) = t\<lparr>now := now t + a\<rparr>"
  proof (rule ticks_waiting)
    show "armed t d" by (rule assms(1))
    show "now t + a < d" using assms(2) by (simp add: a_def)
  qed
  have ar: "armed (t\<lparr>now := now t + a\<rparr>) d" using assms(1) by (simp add: armed_now)
  have da: "now t + a + 1 = d" using assms by (simp add: a_def)
  have f: "tick (t\<lparr>now := now t + a\<rparr>) =
      t\<lparr>now := d, pending := [], runs := runs t @ [d], refreshTimer := None\<rparr>"
    using tick_fires [OF ar] da by simp
  have i: "run (t\<lparr>now := d, pending := [], runs := runs t @ [d], refreshTimer := None\<rparr>)
        (replicate b Tick) =
      t\<lparr>now := d + b, pending := [], runs := runs t @ [d], refreshTimer := None\<rparr>"
    by (simp add: ticks_idle)
  have e: "d + b = now t + n" using assms by (simp add: b_def)
  have l: "replicate n Tick = (replicate a Tick @ [Tick]) @ replicate b Tick"
    unfolding n by (simp add: replicate_add replicate_append_same)
  have "run t (replicate n Tick) =
      run (run (run t (replicate a Tick)) [Tick]) (replicate b Tick)"
    by (simp only: l run_append)
  also have "\<dots> = run (tick (t\<lparr>now := now t + a\<rparr>)) (replicate b Tick)"
    by (simp add: w run_Cons run_Nil)
  also have "\<dots> = t\<lparr>now := d + b, pending := [], runs := runs t @ [d], refreshTimer := None\<rparr>"
    by (simp only: f i)
  finally show ?thesis by (simp only: e)
qed

lemma timer_ok_step: "timer_ok t \<Longrightarrow> timer_ok (step_event t e)"
proof (cases e)
  case Request
  assume "timer_ok t"
  then show ?thesis
    using Request by (simp add: debounceRefresh_ok) (simp add: timer_ok_def REFRESH_DEBOUNCE_MS_def)
next
  case Tick
  assume ok: "timer_ok t"
  then consider "refreshTimer t = None" "pending t = []"
    | d where "armed t d" "now t + 1 < d" | d where "armed t d" "d \<le> now t + 1"
    by (auto simp: timer_ok_cases) (meson not_le_imp_less)
  then show ?thesis
  proof cases
    case 1
    then show ?thesis using ok Tick by (simp add: tick_idle timer_ok_def)
  next
    case 2
    then show ?thesis using ok Tick
      by (simp add: tick_waiting) (auto simp: timer_ok_def armed_iff)
  next
    case 3
    then show ?thesis using ok Tick
      by (simp add: tick_fires) (auto simp: timer_ok_def armed_iff)
  qed
qed

lemma timer_ok_run: "timer_ok t \<Longrightarrow> timer_ok (run t es)"
  by (induction es arbitrary: t) (simp_all add: run_Nil run_Cons timer_ok_step)

lemma timer_ok_pending: "timer_ok t \<Longrightarrow> length (pending t) \<le> 1"
  by (auto simp: timer_ok_def split: option.splits list.splits)

lemma timer_ok_init: "timer_ok timing_init"
  by (simp add: timer_ok_def timing_init_def)

text \<open>After a burst: armed for the last request's time plus the delay, nothing has run.\<close>

lemma burst_armed_aux:
  "timer_ok t \<Longrightarrow> armed t d \<Longrightarrow> now t < d \<Longrightarrow> d \<le> now t + REFRESH_DEBOUNCE_MS \<Longrightarrow>
   list_all (\<lambda>g. g < REFRESH_DEBOUNCE_MS) gaps \<Longrightarrow> d = now t + REFRESH_DEBOUNCE_MS \<Longrightarrow>
   (let t' = run t (concat (map (\<lambda>g. replicate g Tick @ [Request]) gaps)) in
      timer_ok t' \<and> armed t' (now t + sum_list gaps + REFRESH_DEBOUNCE_MS) \<and>
      now t' = now t + sum_list gaps \<and> runs t' = runs t)"
proof (induction gaps arbitrary: t d)
  case Nil
  then show ?case by (simp add: run_Nil)
next
  case (Cons g gaps)
  let ?t1 = "t\<lparr>now := now t + g\<rparr>"
  let ?t2 = "debounceRefresh ?t1"
  have g: "g < REFRESH_DEBOUNCE_MS" using Cons.prems by simp
  have w: "run t (replicate g Tick) = ?t1"
  proof (rule ticks_waiting)
    show "armed t d" using Cons.prems by simp
    show "now t + g < d" using Cons.prems(6) g by linarith
  qed
  have ok1: "timer_ok ?t1"
    using timer_ok_run [OF Cons.prems(1), of "replicate g Tick"] w by simp
  have ok2: "timer_ok ?t2"
    using timer_ok_step [OF ok1, of Request] by simp
  have ar2: "armed ?t2 (now ?t1 + REFRESH_DEBOUNCE_MS)"
    and now2: "now ?t2 = now ?t1" and runs2: "runs ?t2 = runs ?t1"
    using debounceRefresh_armed [OF ok1] by simp_all
  have ih: "let t' = run ?t2 (concat (map (\<lambda>g. replicate g Tick @ [Request]) gaps)) in
      timer_ok t' \<and> armed t' (now ?t2 + sum_list gaps + REFRESH_DEBOUNCE_MS) \<and>
      now t' = now ?t2 + sum_list gaps \<and> runs t' = runs ?t2"
    using Cons.prems ar2 now2
    by (intro Cons.IH [OF ok2, of "now ?t2 + REFRESH_DEBOUNCE_MS"])
      (simp_all add: REFRESH_DEBOUNCE_MS_def)
  have r: "run t (concat (map (\<lambda>g. replicate g Tick @ [Request]) (g # gaps))) =
      run ?t2 (concat (map (\<lambda>g. replicate g Tick @ [Request]) gaps))"
    by (simp add: run_append w run_Cons run_Nil)
  show ?case
    unfolding r using ih now2 runs2 by (simp add: Let_def add.assoc)
qed

lemma burst_armed:
  assumes "timer_ok t" and "list_all (\<lambda>g. g < REFRESH_DEBOUNCE_MS) gaps"
  shows "timer_ok (run t (burst gaps))"
    and "armed (run t (burst gaps)) (now t + sum_list gaps + REFRESH_DEBOUNCE_MS)"
    and "now (run t (burst gaps)) = now t + sum_list gaps"
    and "runs (run t (burst gaps)) = runs t"
proof -
  let ?t0 = "debounceRefresh t"
  have ok0: "timer_ok ?t0" using timer_ok_step [OF assms(1), of Request] by simp
  note a = debounceRefresh_armed [OF assms(1)]
  have "let t' = run ?t0 (concat (map (\<lambda>g. replicate g Tick @ [Request]) gaps)) in
      timer_ok t' \<and> armed t' (now ?t0 + sum_list gaps + REFRESH_DEBOUNCE_MS) \<and>
      now t' = now ?t0 + sum_list gaps \<and> runs t' = runs ?t0"
    using a assms(2)
    by (intro burst_armed_aux [OF ok0, of "now ?t0 + REFRESH_DEBOUNCE_MS"])
      (simp_all add: REFRESH_DEBOUNCE_MS_def)
  then show "timer_ok (run t (burst gaps))"
    and "armed (run t (burst gaps)) (now t + sum_list gaps + REFRESH_DEBOUNCE_MS)"
    and "now (run t (burst gaps)) = now t + sum_list gaps"
    and "runs (run t (burst gaps)) = runs t"
    using a by (simp_all add: burst_def run_Cons Let_def)
qed


text \<open>
  C5. The script starts in a state where nothing is scheduled. From every state the
  script can be in, a sequence of \<open>N \<ge> 1\<close> requests whose consecutive gaps are all
  below 180, followed by \<open>k\<close> units of time, has run the refresh body exactly once more
  when \<open>k \<ge> 180\<close>, at the time of the last request plus 180, and not at all when
  \<open>k < 180\<close>. Whatever happens, at most one timer is scheduled at any time: a request
  leaves only the timer it has just set.
\<close>

theorem debounce_law:
  "timer_ok timing_init \<and>
   (timer_ok t \<and> list_all (\<lambda>g. g < REFRESH_DEBOUNCE_MS) gaps \<longrightarrow>
      runs (run t (burst gaps @ replicate k Tick)) =
        runs t @
          (if REFRESH_DEBOUNCE_MS \<le> k
           then [now t + sum_list gaps + REFRESH_DEBOUNCE_MS] else []) \<and>
      (\<forall>es. timer_ok (run t es) \<and> length (pending (run t es)) \<le> 1) \<and>
      pending (debounceRefresh t) = [(nextHandle t, now t + REFRESH_DEBOUNCE_MS)])"
proof (intro conjI impI allI)
  show "timer_ok timing_init" by (rule timer_ok_init)
next
  fix es
  assume a: "timer_ok t \<and> list_all (\<lambda>g. g < REFRESH_DEBOUNCE_MS) gaps"
  then show "timer_ok (run t es)" by (simp add: timer_ok_run)
  then show "length (pending (run t es)) \<le> 1" by (rule timer_ok_pending)
next
  assume a: "timer_ok t \<and> list_all (\<lambda>g. g < REFRESH_DEBOUNCE_MS) gaps"
  then show "pending (debounceRefresh t) = [(nextHandle t, now t + REFRESH_DEBOUNCE_MS)]"
    by (simp add: debounceRefresh_ok)
next
  assume a: "timer_ok t \<and> list_all (\<lambda>g. g < REFRESH_DEBOUNCE_MS) gaps"
  let ?b = "run t (burst gaps)"
  let ?d = "now t + sum_list gaps + REFRESH_DEBOUNCE_MS"
  from a have ar: "armed ?b ?d" and n: "now ?b = now t + sum_list gaps"
    and r: "runs ?b = runs t"
    by (simp_all add: burst_armed)
  have lt: "now ?b < ?d" using n by (simp add: REFRESH_DEBOUNCE_MS_def)
  show "runs (run t (burst gaps @ replicate k Tick)) =
        runs t @ (if REFRESH_DEBOUNCE_MS \<le> k then [?d] else [])"
  proof (cases "REFRESH_DEBOUNCE_MS \<le> k")
    case True
    then have "?d \<le> now ?b + k" using n by simp
    from ticks_fire [OF ar lt this] show ?thesis
      using True r by (simp add: run_append)
  next
    case False
    then have "now ?b + k < ?d" using n by simp
    from ticks_waiting [OF ar this] show ?thesis
      using False r by (simp add: run_append)
  qed
qed

theorem debounce_law_witness:
  "runs (run timing_init (burst [50, 50] @ replicate 180 Tick)) = [280] \<and>
   runs (run timing_init (burst [50, 50] @ replicate 179 Tick)) = [] \<and>
   length (pending (run timing_init (burst [50, 50]))) \<le> 1"
  using debounce_law [of timing_init "[50, 50]" 180] debounce_law [of timing_init "[50, 50]" 179]
  by (simp add: REFRESH_DEBOUNCE_MS_def timing_init_def)

section \<open>Properties of the control surface and the orchestrator\<close>

lemma restore_input_idem: "restore_input S (restore_input S i) = restore_input S i"
  by (simp add: restore_input_def Let_def)

lemma map_restore_idem:
  "map (restore_input S) (map (restore_input S) is) = map (restore_input S) is"
  by (simp add: restore_input_idem)

lemma restore_input_comp: "restore_input S \<circ> restore_input S = restore_input S"
  by (rule ext) (simp add: restore_input_idem)

lemma has_root_map_first_root: "has_root (map_first_root f c) = has_root c"
  by (induction f c rule: map_first_root.induct) (simp_all add: has_root_def)

lemma map_first_root_twice:
  "map_first_root f (map_first_root f c) = map_first_root (\<lambda>x. f (f x)) c"
  by (induction f c rule: map_first_root.induct) simp_all

lemma ex_root_update_root: "list_ex has_root (update_root f fs) = list_ex has_root fs"
  by (induction fs) (simp_all add: has_root_map_first_root)

lemma update_root_twice:
  "update_root f (update_root f fs) = update_root (\<lambda>x. f (f x)) fs"
  by (induction fs) (simp_all add: has_root_map_first_root map_first_root_twice)

lemma initializeHtml_idem: "initializeHtml S (initializeHtml S fs) = initializeHtml S fs"
proof (cases "list_ex has_root fs")
  case True
  then show ?thesis
    by (simp add: initializeHtml_def ex_root_update_root update_root_twice restore_input_comp)
next
  case False
  show ?thesis
  proof (cases fs)
    case Nil
    then show ?thesis by (simp add: initializeHtml_def)
  next
    case (Cons f0 rest)
    then show ?thesis
      using False by (simp add: initializeHtml_def has_root_def restore_input_idem)
  qed
qed

lemma count_map_first_root: "length (filter is_root (map_first_root f c)) = length (filter is_root c)"
  by (induction f c rule: map_first_root.induct) simp_all

lemma count_update_root: "count_roots (update_root f fs) = count_roots fs"
  by (induction fs) (simp_all add: count_roots_def count_map_first_root)

lemma no_root_count: "\<not> list_ex has_root fs \<Longrightarrow> count_roots fs = 0"
  by (induction fs) (auto simp: count_roots_def has_root_def list_ex_iff filter_empty_conv)

lemma root_count: "list_ex has_root fs \<Longrightarrow> 0 < count_roots fs"
  by (induction fs) (auto simp: count_roots_def has_root_def list_ex_iff filter_empty_conv)

lemma count_initializeHtml:
  "count_roots (initializeHtml S fs) =
     (if count_roots fs = 0 \<and> fs \<noteq> [] then 1 else count_roots fs)"
proof (cases "list_ex has_root fs")
  case True
  then show ?thesis
    using root_count [OF True] by (simp add: initializeHtml_def count_update_root)
next
  case False
  then show ?thesis
    using no_root_count [OF False]
    by (cases fs) (simp_all add: initializeHtml_def count_roots_def)
qed

lemma fresh_block:
  "map (restore_input S) fresh_inputs =
     map (\<lambda>color. \<lparr>input_value = color, checked = Set_has S (JString color),
                    anichart_listening = True, change_listeners = 1\<rparr>) KNOWN_COLORS"
  by (simp add: fresh_inputs_def restore_input_def Let_def)

lemma initialize_doc:
  "css_blocks (doc (initialize s)) = (if css_blocks (doc s) = 0 then 1 else css_blocks (doc s))"
  "filters (doc (initialize s)) = initializeHtml (SELECTED_COLORS s) (filters (doc s))"
  "observers (doc (initialize s)) =
     (if mainObserver s then observers (doc s) else observers (doc s) + 1)"
  "SELECTED_COLORS (initialize s) = SELECTED_COLORS s"
  by (simp_all add: initialize_def initializeCss_def setupObservers_def Let_def)

lemma script_doc:
  assumes "script item d = Inr s"
  shows "SELECTED_COLORS_init item = Inr (SELECTED_COLORS s)"
    and "css_blocks (doc s) = (if css_blocks d = 0 then 1 else css_blocks d)"
    and "filters (doc s) = initializeHtml (SELECTED_COLORS s) (filters d)"
    and "observers (doc s) = observers d + 1"
  using assms
  by (auto simp: script_def initialize_doc split: sum.splits)

text \<open>
  C9. The script is injected twice into a page with one \<open>filters\<close> element and the
  stored selection \<open>["red"]\<close>. The second run finds the style block and the control
  block of the first by their ids and adds none, and it leaves the checkboxes and their
  listeners as they are; but its \<open>mainObserver\<close> starts as \<open>null\<close>, so it attaches a
  second mutation observer.
\<close>

theorem second_injection_second_observer:
  "\<exists>s1 s2.
     script (Some (units ''[\"red\"]'')) \<lparr>css_blocks = 0, filters = [[HostChild]], observers = 0\<rparr>
       = Inr s1 \<and>
     script (Some (units ''[\"red\"]'')) (doc s1) = Inr s2 \<and>
     doc s1 =
       \<lparr>css_blocks = 1,
         filters =
           [[FilterRoot
               [\<lparr>input_value = ''green'', checked = False, anichart_listening = True,
                  change_listeners = 1\<rparr>,
                \<lparr>input_value = ''yellow'', checked = False, anichart_listening = True,
                  change_listeners = 1\<rparr>,
                \<lparr>input_value = ''red'', checked = True, anichart_listening = True,
                  change_listeners = 1\<rparr>,
                \<lparr>input_value = ''gray'', checked = False, anichart_listening = True,
                  change_listeners = 1\<rparr>],
             HostChild]],
         observers = 1\<rparr> \<and>
     doc s2 = (doc s1)\<lparr>observers := 2\<rparr>"
proof -
  let ?item = "Some (units ''[\"red\"]'')"
  let ?d0 = "\<lparr>css_blocks = 0, filters = [[HostChild]], observers = 0\<rparr>"
  let ?s1 = "initialize
      \<lparr>SELECTED_COLORS = [JString ''red''], mainObserver = False, doc = ?d0, timing = timing_init\<rparr>"
  let ?s2 = "initialize
      \<lparr>SELECTED_COLORS = [JString ''red''], mainObserver = False, doc = doc ?s1,
        timing = timing_init\<rparr>"
  have l: "SELECTED_COLORS_init ?item = Inr [JString ''red'']"
    unfolding JString_def by code_simp
  have r1: "script ?item ?d0 = Inr ?s1" by (simp add: script_def l)
  have r2: "script ?item (doc ?s1) = Inr ?s2" by (simp add: script_def l)
  have f1: "initializeHtml [JString ''red''] [[HostChild]] =
      [[FilterRoot
          [\<lparr>input_value = ''green'', checked = False, anichart_listening = True,
             change_listeners = 1\<rparr>,
           \<lparr>input_value = ''yellow'', checked = False, anichart_listening = True,
             change_listeners = 1\<rparr>,
           \<lparr>input_value = ''red'', checked = True, anichart_listening = True,
             change_listeners = 1\<rparr>,
           \<lparr>input_value = ''gray'', checked = False, anichart_listening = True,
             change_listeners = 1\<rparr>],
        HostChild]]"
    by (simp add: initializeHtml_def has_root_def fresh_inputs_def restore_input_def
        Let_def KNOWN_COLORS_def Set_has_def)
  have d1: "doc ?s1 =
      \<lparr>css_blocks = 1, filters = initializeHtml [JString ''red''] [[HostChild]], observers = 1\<rparr>"
    by (simp add: initialize_def initializeCss_def setupObservers_def Let_def)
  have d2: "doc ?s2 = (doc ?s1)\<lparr>observers := 2\<rparr>"
    by (simp add: initialize_def initializeCss_def setupObservers_def Let_def d1
        initializeHtml_idem)
  show ?thesis
    using r1 r2 d1 d2 f1 by (intro exI [of _ ?s1] exI [of _ ?s2]) simp
qed


end
